theory Spec2Isabelle
  imports Complex_Main
begin

section \<open>Errors\<close>

text \<open>
  Exceptions of the Python code are values.  \<open>ValueError\<close> is what \<open>math.sqrt\<close> and
  \<open>math.asin\<close> raise outside their domain; \<open>TypeError\<close> and \<open>AttributeError\<close> carry their
  message; \<open>ValidationError\<close> is pydantic's, with the class and the missing fields;
  \<open>MultipleResultsFound\<close> is what SQLAlchemy's \<open>scalar_one_or_none\<close> raises on a result of
  more than one row; \<open>HTTPException status detail\<close> is FastAPI's exception.
\<close>

datatype error =
    ValueError
  | TypeError string
  | AttributeError string
  | ValidationError string "string list"
  | MultipleResultsFound
  | HTTPException nat string

section \<open>Geometry (shared/location.py)\<close>

text \<open>
  Python floats are modelled by the real numbers: \<open>math.sin\<close>, \<open>math.cos\<close>,
  \<open>math.asin\<close> and \<open>math.sqrt\<close> are the functions of the reals, without rounding.
  The two library calls that can raise keep their error branch.
\<close>

definition radians :: "real \<Rightarrow> real" where
  "radians x = x * pi / 180"

definition math_sqrt :: "real \<Rightarrow> error + real" where
  "math_sqrt x = (if x < 0 then Inl ValueError else Inr (sqrt x))"

definition math_asin :: "real \<Rightarrow> error + real" where
  "math_asin x = (if x < - 1 \<or> 1 < x then Inl ValueError else Inr (arcsin x))"

definition earth_radius :: real where
  "earth_radius = 6371000"

definition haversine_a :: "real \<Rightarrow> real \<Rightarrow> real \<Rightarrow> real \<Rightarrow> real" where
  "haversine_a lat1 lon1 lat2 lon2 =
     (let lat1_rad = radians lat1;
          lon1_rad = radians lon1;
          lat2_rad = radians lat2;
          lon2_rad = radians lon2;
          dlat = lat2_rad - lat1_rad;
          dlon = lon2_rad - lon1_rad
      in (sin (dlat / 2))\<^sup>2 + cos lat1_rad * cos lat2_rad * (sin (dlon / 2))\<^sup>2)"

definition calculate_distance :: "real \<Rightarrow> real \<Rightarrow> real \<Rightarrow> real \<Rightarrow> error + real" where
  "calculate_distance lat1 lon1 lat2 lon2 =
     (let a = haversine_a lat1 lon1 lat2 lon2
      in case math_sqrt a of
           Inl e \<Rightarrow> Inl e
         | Inr s \<Rightarrow>
             (case math_asin s of
                Inl e \<Rightarrow> Inl e
              | Inr as \<Rightarrow> Inr (earth_radius * (2 * as))))"

definition is_point_in_circle ::
  "real \<Rightarrow> real \<Rightarrow> real \<Rightarrow> real \<Rightarrow> real \<Rightarrow> error + bool" where
  "is_point_in_circle point_lat point_lon center_lat center_lon radius_meters =
     (case calculate_distance point_lat point_lon center_lat center_lon of
        Inl e \<Rightarrow> Inl e
      | Inr distance \<Rightarrow> Inr (distance \<le> radius_meters))"

section \<open>Data model (geofencing_service/models.py, geofencing_service/schemas.py)\<close>

text \<open>
  The records carry the columns that \<open>models.py\<close> declares and the fields that
  \<open>schemas.py\<close> declares, no others; \<open>User\<close> is the model of \<open>auth_service/models.py\<close>.
  Field names carry a one-letter prefix per record.  UUIDs are natural numbers, a
  \<open>datetime\<close> is a number of seconds, a nullable column is an option, and JSON values are
  values of \<open>json\<close>, where \<open>JUuid\<close> and \<open>JTime\<close> stand for \<open>str(uuid)\<close> and \<open>isoformat()\<close>.
\<close>

type_synonym uuid = nat
type_synonym datetime = int

datatype json =
    JNull
  | JBool bool
  | JStr string
  | JNum real
  | JUuid uuid
  | JTime datetime
  | JObj "(string \<times> json) list"

text \<open>The enumerations of \<open>models.py\<close>.\<close>

datatype GeofenceType =
    SAFE_ZONE
  | RESTRICTED_ZONE
  | WORK_ZONE
  | HOME_ZONE
  | SCHOOL_ZONE
  | EMERGENCY_ZONE
  | CUSTOM

fun geofence_type_value :: "GeofenceType \<Rightarrow> string" where
  "geofence_type_value SAFE_ZONE = ''safe_zone''"
| "geofence_type_value RESTRICTED_ZONE = ''restricted_zone''"
| "geofence_type_value WORK_ZONE = ''work_zone''"
| "geofence_type_value HOME_ZONE = ''home_zone''"
| "geofence_type_value SCHOOL_ZONE = ''school_zone''"
| "geofence_type_value EMERGENCY_ZONE = ''emergency_zone''"
| "geofence_type_value CUSTOM = ''custom''"

datatype GeofenceStatus = ACTIVE | INACTIVE | PAUSED | EXPIRED

datatype GeofenceShape = CIRCLE | POLYGON | RECTANGLE

text \<open>\<open>GeofenceEventType\<close>; the router refers to it under the name \<open>EventType\<close>.\<close>

datatype GeofenceEventType = ENTER | EXIT | DWELL | BREACH

fun event_type_value :: "GeofenceEventType \<Rightarrow> string" where
  "event_type_value ENTER = ''enter''"
| "event_type_value EXIT = ''exit''"
| "event_type_value DWELL = ''dwell''"
| "event_type_value BREACH = ''breach''"

text \<open>The enumerations of \<open>schemas.py\<close>, which are classes of their own.\<close>

datatype SchemaGeofenceType = S_SAFE_ZONE | S_RESTRICTED_ZONE | S_HOME | S_WORK | S_SCHOOL | S_CUSTOM

datatype SchemaGeofenceEventType = S_ENTER | S_EXIT | S_DWELL | S_BREACH

datatype SchemaGeofenceShape = S_CIRCLE | S_POLYGON | S_RECTANGLE

record User =
  u_id :: uuid
  u_email :: string
  u_phone :: string
  u_password_hash :: string
  u_first_name :: string
  u_last_name :: string
  u_is_active :: bool
  u_is_verified :: bool
  u_created_at :: datetime
  u_updated_at :: datetime

record Geofence =
  g_id :: uuid
  g_user_id :: uuid
  g_name :: string
  g_description :: "string option"
  g_geofence_type :: GeofenceType
  g_status :: GeofenceStatus
  g_shape :: GeofenceShape
  g_coordinates :: json
  g_radius :: "real option"
  g_center_latitude :: real
  g_center_longitude :: real
  g_address :: "string option"
  g_city :: "string option"
  g_state :: "string option"
  g_country :: "string option"
  g_postal_code :: "string option"
  g_trigger_on_enter :: bool
  g_trigger_on_exit :: bool
  g_trigger_on_dwell :: bool
  g_dwell_time_minutes :: "int option"
  g_notify_user :: bool
  g_notify_emergency_contacts :: bool
  g_notification_message :: "string option"
  g_is_scheduled :: bool
  g_schedule_config :: json
  g_valid_from :: "datetime option"
  g_valid_until :: "datetime option"
  g_monitoring_enabled :: bool
  g_sensitivity_level :: "string option"
  g_total_entries :: int
  g_total_exits :: int
  g_total_dwells :: int
  g_last_triggered :: "datetime option"
  g_tags :: json
  g_metadata :: json
  g_created_at :: datetime
  g_updated_at :: datetime

record GeofenceEvent =
  e_id :: uuid
  e_geofence_id :: uuid
  e_user_id :: uuid
  e_event_type :: GeofenceEventType
  e_latitude :: real
  e_longitude :: real
  e_accuracy :: "real option"
  e_distance_from_boundary :: "real option"
  e_device_id :: "string option"
  e_battery_level :: "int option"
  e_network_type :: "string option"
  e_event_timestamp :: datetime
  e_dwell_duration_minutes :: "int option"
  e_processed :: bool
  e_processed_at :: "datetime option"
  e_processing_error :: "string option"
  e_notifications_sent :: bool
  e_notification_count :: int
  e_metadata :: json
  e_created_at :: datetime

record GeofenceCreate =
  c_name :: string
  c_description :: "string option"
  c_geofence_type :: SchemaGeofenceType
  c_shape :: SchemaGeofenceShape
  c_center_latitude :: real
  c_center_longitude :: real
  c_radius_meters :: "real option"
  c_coordinates :: "(real \<times> real) list option"
  c_is_active :: bool
  c_send_notifications :: bool
  c_notification_events :: "SchemaGeofenceEventType list"
  c_metadata :: json

text \<open>
  \<open>p_fields_set\<close> is what pydantic's \<open>dict(exclude_unset=True)\<close> returns for the update
  request.
\<close>

record GeofenceUpdate =
  p_name :: "string option"
  p_description :: "string option"
  p_is_active :: "bool option"
  p_send_notifications :: "bool option"
  p_notification_events :: "SchemaGeofenceEventType list option"
  p_radius_meters :: "real option"
  p_coordinates :: "(real \<times> real) list option"
  p_metadata :: json
  p_fields_set :: json

record LocationUpdate =
  l_latitude :: real
  l_longitude :: real
  l_accuracy :: "real option"
  l_altitude :: "real option"
  l_speed :: "real option"
  l_heading :: "real option"
  l_timestamp :: "datetime option"

record GeofenceResponse =
  r_id :: uuid
  r_user_id :: uuid
  r_name :: string
  r_description :: "string option"
  r_geofence_type :: SchemaGeofenceType
  r_shape :: SchemaGeofenceShape
  r_center_latitude :: real
  r_center_longitude :: real
  r_radius_meters :: "real option"
  r_coordinates :: "(real \<times> real) list option"
  r_is_active :: bool
  r_send_notifications :: bool
  r_notification_events :: "SchemaGeofenceEventType list"
  r_created_at :: datetime
  r_updated_at :: datetime
  r_last_triggered :: "datetime option"
  r_trigger_count :: int
  r_address :: "string option"
  r_metadata :: json

text \<open>
  The relational store holds the two tables the router touches.  \<open>kafka\<close> is the log of
  messages handed to \<open>publish_geofence_event\<close>, oldest first; a rollback of the database
  session does not take a published message back.
\<close>

record Database =
  geofences :: "Geofence list"
  geofence_events :: "GeofenceEvent list"

record World =
  db :: Database
  kafka :: "json list"

section \<open>Exceptions of attribute access, construction and queries\<close>

text \<open>
  \<open>router.py\<close> reads and passes attributes that the classes of \<open>models.py\<close> and
  \<open>schemas.py\<close> do not declare.  Such a read raises \<open>AttributeError\<close>, and an undeclared
  keyword passed to the constructor of a mapped class raises \<open>TypeError\<close>.  In the handlers
  below every such place is written as the raise it is; the value the statement would have
  delivered is the argument of the continuation, which is never run.
\<close>

definition quoted :: "string \<Rightarrow> string" where
  "quoted s = CHR 0x27 # s @ [CHR 0x27]"

definition type_has_no_attribute :: "string \<Rightarrow> string \<Rightarrow> error + 'a" where
  "type_has_no_attribute cls name =
     Inl (AttributeError (''type object '' @ quoted cls @ '' has no attribute '' @ quoted name))"

definition object_has_no_attribute :: "string \<Rightarrow> string \<Rightarrow> error + 'a" where
  "object_has_no_attribute cls name =
     Inl (AttributeError (quoted cls @ '' object has no attribute '' @ quoted name))"

definition invalid_keyword_argument :: "string \<Rightarrow> string \<Rightarrow> error + 'a" where
  "invalid_keyword_argument name cls =
     Inl (TypeError (quoted name @ '' is an invalid keyword argument for '' @ cls))"

definition missing_fields :: "string \<Rightarrow> string list \<Rightarrow> error + 'a" where
  "missing_fields cls names = Inl (ValidationError cls names)"

text \<open>Sequencing: the first exception ends the computation.\<close>

definition and_then :: "error + 'a \<Rightarrow> ('a \<Rightarrow> error + 'b) \<Rightarrow> error + 'b" where
  "and_then m f = (case m of Inl e \<Rightarrow> Inl e | Inr v \<Rightarrow> f v)"

text \<open>
  SQLAlchemy's \<open>scalar_one_or_none\<close>: \<open>None\<close> for no row, the row for exactly one, and
  \<open>MultipleResultsFound\<close> raised for more.
\<close>

fun scalar_one_or_none :: "'a list \<Rightarrow> error + 'a option" where
  "scalar_one_or_none [] = Inr None"
| "scalar_one_or_none [x] = Inr (Some x)"
| "scalar_one_or_none (x # y # zs) = Inl MultipleResultsFound"

text \<open>
  \<open>str(e)\<close> of an exception, and the 500 response the handlers build from it.  An
  \<open>HTTPException\<close> never reaches \<open>server_error\<close>: the handlers re-raise it before.
\<close>

fun error_str :: "error \<Rightarrow> string" where
  "error_str ValueError = ''math domain error''"
| "error_str (TypeError message) = message"
| "error_str (AttributeError message) = message"
| "error_str (ValidationError cls names) = ''validation errors for '' @ cls"
| "error_str MultipleResultsFound = ''Multiple rows were found when one or none was required''"
| "error_str (HTTPException code detail) = detail"

definition server_error :: "string \<Rightarrow> error \<Rightarrow> error" where
  "server_error what e = HTTPException 500 (what @ '': '' @ error_str e)"

definition json_float :: "real option \<Rightarrow> json" where
  "json_float v = (case v of None \<Rightarrow> JNull | Some x \<Rightarrow> JNum x)"

text \<open>
  \<open>select(Geofence).where(Geofence.id == geofence_id, Geofence.user_id == current_user.id)\<close>
\<close>

definition select_geofence :: "Database \<Rightarrow> uuid \<Rightarrow> User \<Rightarrow> Geofence list" where
  "select_geofence d geofence_id current_user =
     filter (\<lambda>g. g_id g = geofence_id \<and> g_user_id g = u_id current_user) (geofences d)"

text \<open>
  \<open>select(Geofence).where(Geofence.user_id == current_user.id, Geofence.is_active == True)\<close>:
  building the query reads the class attribute \<open>Geofence.is_active\<close>, which \<open>models.py\<close>
  does not declare (the model has \<open>status\<close>).
\<close>

definition select_active_geofences :: "Database \<Rightarrow> User \<Rightarrow> error + Geofence list" where
  "select_active_geofences d current_user =
     and_then (type_has_no_attribute ''Geofence'' ''is_active'') (\<lambda>is_active.
       Inr (filter (\<lambda>g. g_user_id g = u_id current_user \<and> is_active g = True) (geofences d)))"

definition not_found :: error where
  "not_found = HTTPException 404 ''Geofence not found''"

text \<open>
  The keyword arguments of \<open>GeofenceResponse(...)\<close> as the three handlers write them:
  \<open>id\<close>, \<open>name\<close>, \<open>description\<close> and \<open>geofence_type\<close> are read from the row, the next one is
  \<open>geofence.latitude\<close>.  The schema would then miss its required fields.
\<close>

definition geofence_response :: "Geofence \<Rightarrow> error + GeofenceResponse" where
  "geofence_response geofence =
     and_then (object_has_no_attribute ''Geofence'' ''latitude'') (\<lambda>latitude :: real.
     and_then (object_has_no_attribute ''Geofence'' ''longitude'') (\<lambda>longitude :: real.
     and_then (object_has_no_attribute ''Geofence'' ''radius_meters'') (\<lambda>radius_meters :: real option.
     and_then (object_has_no_attribute ''Geofence'' ''is_active'') (\<lambda>is_active :: bool.
     and_then (object_has_no_attribute ''Geofence'' ''notify_on_enter'') (\<lambda>notify_on_enter :: bool.
     and_then (object_has_no_attribute ''Geofence'' ''notify_on_exit'') (\<lambda>notify_on_exit :: bool.
       missing_fields ''GeofenceResponse''
         [''user_id'', ''shape'', ''center_latitude'', ''center_longitude'',
          ''send_notifications'', ''notification_events'']))))))"

section \<open>create_geofence\<close>

text \<open>
  After the count query: \<open>get_location_info(geofence_data.latitude, geofence_data.longitude)\<close>,
  then the keyword arguments of \<open>Geofence(...)\<close>, of which \<open>latitude\<close> is the first that the
  mapped class does not accept.
\<close>

definition new_geofence :: "GeofenceCreate \<Rightarrow> User \<Rightarrow> error + Geofence" where
  "new_geofence geofence_data current_user =
     and_then (object_has_no_attribute ''GeofenceCreate'' ''latitude'') (\<lambda>latitude :: real.
     and_then (object_has_no_attribute ''GeofenceCreate'' ''longitude'') (\<lambda>longitude :: real.
     and_then (object_has_no_attribute ''GeofenceCreate'' ''notify_on_enter'') (\<lambda>notify_on_enter :: bool.
     and_then (object_has_no_attribute ''GeofenceCreate'' ''notify_on_exit'') (\<lambda>notify_on_exit :: bool.
       invalid_keyword_argument ''latitude'' ''Geofence''))))"

definition geofence_created_message :: "Geofence \<Rightarrow> User \<Rightarrow> error + json" where
  "geofence_created_message g current_user =
     and_then (object_has_no_attribute ''Geofence'' ''latitude'') (\<lambda>latitude :: real.
     and_then (object_has_no_attribute ''Geofence'' ''longitude'') (\<lambda>longitude :: real.
     and_then (object_has_no_attribute ''Geofence'' ''radius_meters'') (\<lambda>radius_meters :: real option.
     and_then (object_has_no_attribute ''Geofence'' ''is_active'') (\<lambda>is_active :: bool.
       Inr (JObj [(''event_type'', JStr ''geofence_created''),
                  (''geofence_id'', JUuid (g_id g)),
                  (''user_id'', JUuid (u_id current_user)),
                  (''geofence_name'', JStr (g_name g)),
                  (''geofence_type'', JStr (geofence_type_value (g_geofence_type g))),
                  (''latitude'', JNum latitude),
                  (''longitude'', JNum longitude),
                  (''radius_meters'', json_float radius_meters),
                  (''is_active'', JBool is_active),
                  (''timestamp'', JTime (g_created_at g))])))))"

definition create_geofence ::
  "GeofenceCreate \<Rightarrow> User \<Rightarrow> World \<Rightarrow> (error + GeofenceResponse) \<times> World" where
  "create_geofence geofence_data current_user w =
     (case select_active_geofences (db w) current_user of
        Inl e \<Rightarrow> (Inl (server_error ''Failed to create geofence'' e), w)
      | Inr active \<Rightarrow>
          (let geofence_count = length active
           in if geofence_count \<ge> 10
              then (Inl (HTTPException 400 ''Maximum of 10 active geofences allowed''), w)
              else
                (case new_geofence geofence_data current_user of
                   Inl e \<Rightarrow> (Inl (server_error ''Failed to create geofence'' e), w)
                 | Inr g \<Rightarrow>
                     (let d' = (db w)\<lparr>geofences := geofences (db w) @ [g]\<rparr>
                      in case geofence_created_message g current_user of
                           Inl e \<Rightarrow>
                             (Inl (server_error ''Failed to create geofence'' e),
                              \<lparr>db = d', kafka = kafka w\<rparr>)
                         | Inr message \<Rightarrow>
                             (case geofence_response g of
                                Inl e \<Rightarrow>
                                  (Inl (server_error ''Failed to create geofence'' e),
                                   \<lparr>db = d', kafka = kafka w @ [message]\<rparr>)
                              | Inr response \<Rightarrow>
                                  (Inr response, \<lparr>db = d', kafka = kafka w @ [message]\<rparr>))))))"

section \<open>get_geofence, update_geofence, delete_geofence\<close>

definition get_geofence :: "uuid \<Rightarrow> User \<Rightarrow> World \<Rightarrow> (error + GeofenceResponse) \<times> World" where
  "get_geofence geofence_id current_user w =
     (case scalar_one_or_none (select_geofence (db w) geofence_id current_user) of
        Inl e \<Rightarrow> (Inl (server_error ''Failed to retrieve geofence'' e), w)
      | Inr None \<Rightarrow> (Inl not_found, w)
      | Inr (Some geofence) \<Rightarrow>
          (case geofence_response geofence of
             Inl e \<Rightarrow> (Inl (server_error ''Failed to retrieve geofence'' e), w)
           | Inr response \<Rightarrow> (Inr response, w)))"

text \<open>
  The field updates of update_geofence, in the order of the source.  \<open>name\<close> and
  \<open>description\<close> are fields of the request and columns of the row; the third read is
  \<open>geofence_data.latitude\<close>.  The assignments that would follow set attributes that are no
  columns and would leave the row as it is.
\<close>

definition apply_update :: "GeofenceUpdate \<Rightarrow> Geofence \<Rightarrow> error + Geofence" where
  "apply_update geofence_data geofence =
     (let geofence1 = (case p_name geofence_data of
                         None \<Rightarrow> geofence
                       | Some v \<Rightarrow> geofence\<lparr>g_name := v\<rparr>);
          geofence2 = (case p_description geofence_data of
                         None \<Rightarrow> geofence1
                       | Some v \<Rightarrow> geofence1\<lparr>g_description := Some v\<rparr>)
      in and_then (object_has_no_attribute ''GeofenceUpdate'' ''latitude'') (\<lambda>latitude :: real option.
         and_then (object_has_no_attribute ''GeofenceUpdate'' ''longitude'') (\<lambda>longitude :: real option.
         and_then (object_has_no_attribute ''GeofenceUpdate'' ''notify_on_enter'') (\<lambda>notify_on_enter :: bool option.
         and_then (object_has_no_attribute ''GeofenceUpdate'' ''notify_on_exit'') (\<lambda>notify_on_exit :: bool option.
           Inr geofence2)))))"

text \<open>
  The commit writes the row back; \<open>updated_at\<close> has \<open>onupdate=func.now()\<close>, so it moves to
  \<open>now\<close> when the row changed.
\<close>

definition commit_update :: "Geofence \<Rightarrow> Geofence \<Rightarrow> datetime \<Rightarrow> Geofence" where
  "commit_update old new now = (if new = old then old else new\<lparr>g_updated_at := now\<rparr>)"

definition geofence_updated_message :: "Geofence \<Rightarrow> User \<Rightarrow> GeofenceUpdate \<Rightarrow> datetime \<Rightarrow> json" where
  "geofence_updated_message g current_user geofence_data now =
     JObj [(''event_type'', JStr ''geofence_updated''),
           (''geofence_id'', JUuid (g_id g)),
           (''user_id'', JUuid (u_id current_user)),
           (''updated_fields'', p_fields_set geofence_data),
           (''timestamp'', JTime now)]"

definition update_geofence ::
  "uuid \<Rightarrow> GeofenceUpdate \<Rightarrow> User \<Rightarrow> datetime \<Rightarrow> World \<Rightarrow> (error + GeofenceResponse) \<times> World" where
  "update_geofence geofence_id geofence_data current_user now w =
     (case scalar_one_or_none (select_geofence (db w) geofence_id current_user) of
        Inl e \<Rightarrow> (Inl (server_error ''Failed to update geofence'' e), w)
      | Inr None \<Rightarrow> (Inl not_found, w)
      | Inr (Some geofence) \<Rightarrow>
          (case apply_update geofence_data geofence of
             Inl e \<Rightarrow> (Inl (server_error ''Failed to update geofence'' e), w)
           | Inr updated \<Rightarrow>
               (let g = commit_update geofence updated now;
                    d' = (db w)\<lparr>geofences :=
                           map (\<lambda>x. if g_id x = geofence_id \<and> g_user_id x = u_id current_user
                                    then g else x)
                             (geofences (db w))\<rparr>;
                    k' = kafka w @ [geofence_updated_message g current_user geofence_data now]
                in case geofence_response g of
                     Inl e \<Rightarrow>
                       (Inl (server_error ''Failed to update geofence'' e), \<lparr>db = d', kafka = k'\<rparr>)
                   | Inr response \<Rightarrow> (Inr response, \<lparr>db = d', kafka = k'\<rparr>))))"

definition geofence_deleted_message :: "uuid \<Rightarrow> Geofence \<Rightarrow> User \<Rightarrow> datetime \<Rightarrow> json" where
  "geofence_deleted_message geofence_id g current_user now =
     JObj [(''event_type'', JStr ''geofence_deleted''),
           (''geofence_id'', JUuid geofence_id),
           (''user_id'', JUuid (u_id current_user)),
           (''geofence_name'', JStr (g_name g)),
           (''timestamp'', JTime now)]"

text \<open>
  Deleting a geofence deletes its events with it (\<open>ondelete="CASCADE"\<close> and
  \<open>cascade="all, delete-orphan"\<close> in \<open>models.py\<close>).
\<close>

definition delete_geofence :: "uuid \<Rightarrow> User \<Rightarrow> datetime \<Rightarrow> World \<Rightarrow> (error + unit) \<times> World" where
  "delete_geofence geofence_id current_user now w =
     (case scalar_one_or_none (select_geofence (db w) geofence_id current_user) of
        Inl e \<Rightarrow> (Inl (server_error ''Failed to delete geofence'' e), w)
      | Inr None \<Rightarrow> (Inl not_found, w)
      | Inr (Some geofence) \<Rightarrow>
          (let d' = \<lparr> geofences =
                       filter (\<lambda>x. \<not> (g_id x = geofence_id \<and> g_user_id x = u_id current_user))
                         (geofences (db w)),
                     geofence_events =
                       filter (\<lambda>e. e_geofence_id e \<noteq> g_id geofence) (geofence_events (db w)) \<rparr>;
               k' = kafka w @ [geofence_deleted_message geofence_id geofence current_user now]
           in (Inr (), \<lparr>db = d', kafka = k'\<rparr>)))"

section \<open>update_location\<close>

text \<open>
  The recent-event query of the loop body: the events of this geofence and user created
  within the last five minutes (300 seconds), newest first.
\<close>

definition recent_events :: "Database \<Rightarrow> Geofence \<Rightarrow> User \<Rightarrow> datetime \<Rightarrow> GeofenceEvent list" where
  "recent_events d geofence current_user now =
     sort_key (\<lambda>e. - e_created_at e)
       (filter (\<lambda>e. e_geofence_id e = g_id geofence
                    \<and> e_user_id e = u_id current_user
                    \<and> e_created_at e \<ge> now - 300)
          (geofence_events d))"

text \<open>\<open>distance <= geofence.radius_meters\<close>; the comparison with \<open>None\<close> raises.\<close>

definition float_le :: "real \<Rightarrow> real option \<Rightarrow> error + bool" where
  "float_le x y =
     (case y of
        None \<Rightarrow>
          Inl (TypeError (quoted ''<='' @ '' not supported between instances of ''
                          @ quoted ''float'' @ '' and '' @ quoted ''NoneType''))
      | Some r \<Rightarrow> Inr (x \<le> r))"

text \<open>
  The decision of the loop body.  \<open>is_inside and geofence.notify_on_enter\<close> reads the
  attribute only when \<open>is_inside\<close> holds, and the \<open>elif\<close> reads \<open>geofence.notify_on_exit\<close> only
  when it does not; the model declares neither (it has \<open>trigger_on_enter\<close> and
  \<open>trigger_on_exit\<close>).
\<close>

definition decide_event :: "bool \<Rightarrow> GeofenceEvent option \<Rightarrow> error + GeofenceEventType option" where
  "decide_event is_inside recent_event =
     and_then (if is_inside then object_has_no_attribute ''Geofence'' ''notify_on_enter''
               else Inr False) (\<lambda>enter_test.
       if enter_test then
         Inr (case recent_event of
                None \<Rightarrow> Some ENTER
              | Some r \<Rightarrow> if e_event_type r = EXIT then Some ENTER else None)
       else
         and_then (if \<not> is_inside then object_has_no_attribute ''Geofence'' ''notify_on_exit''
                   else Inr False) (\<lambda>exit_test.
           if exit_test then
             Inr (case recent_event of
                    None \<Rightarrow> None
                  | Some r \<Rightarrow> if e_event_type r = ENTER then Some EXIT else None)
           else Inr None))"

text \<open>
  One pass of the loop body up to the decision: the distance (its third argument is
  \<open>geofence.latitude\<close>), the containment test, the recent-event query and the decision.
\<close>

definition check_geofence ::
  "LocationUpdate \<Rightarrow> User \<Rightarrow> datetime \<Rightarrow> Database \<Rightarrow> Geofence
     \<Rightarrow> error + (GeofenceEventType \<times> real) option" where
  "check_geofence location_data current_user now d geofence =
     and_then (object_has_no_attribute ''Geofence'' ''latitude'') (\<lambda>geofence_latitude.
     and_then (object_has_no_attribute ''Geofence'' ''longitude'') (\<lambda>geofence_longitude.
     and_then (calculate_distance (l_latitude location_data) (l_longitude location_data)
                 geofence_latitude geofence_longitude) (\<lambda>distance.
     and_then (object_has_no_attribute ''Geofence'' ''radius_meters'') (\<lambda>radius_meters.
     and_then (float_le distance radius_meters) (\<lambda>is_inside.
     and_then (scalar_one_or_none (recent_events d geofence current_user now)) (\<lambda>recent_event.
     and_then (decide_event is_inside recent_event) (\<lambda>decision.
       case decision of
         None \<Rightarrow> Inr None
       | Some event_type \<Rightarrow> Inr (Some (event_type, distance)))))))))"

text \<open>
  \<open>GeofenceEvent(...)\<close>: the metadata argument reads \<open>location_data.device_info\<close>, and the
  keyword \<open>distance_meters\<close> is none of the mapped class.
\<close>

definition new_geofence_event :: "LocationUpdate \<Rightarrow> error + GeofenceEvent" where
  "new_geofence_event location_data =
     and_then (object_has_no_attribute ''LocationUpdate'' ''device_info'') (\<lambda>device_info :: json.
       invalid_keyword_argument ''distance_meters'' ''GeofenceEvent'')"

definition geofence_event_message ::
  "LocationUpdate \<Rightarrow> User \<Rightarrow> datetime \<Rightarrow> Geofence \<Rightarrow> GeofenceEventType \<Rightarrow> real \<Rightarrow> json" where
  "geofence_event_message location_data current_user now geofence event_type distance =
     JObj [(''event_type'', JStr (''geofence_'' @ event_type_value event_type)),
           (''geofence_id'', JUuid (g_id geofence)),
           (''geofence_name'', JStr (g_name geofence)),
           (''geofence_type'', JStr (geofence_type_value (g_geofence_type geofence))),
           (''user_id'', JUuid (u_id current_user)),
           (''user_name'', JStr (u_first_name current_user @ '' '' @ u_last_name current_user)),
           (''latitude'', JNum (l_latitude location_data)),
           (''longitude'', JNum (l_longitude location_data)),
           (''distance_meters'', JNum distance),
           (''timestamp'', JTime now),
           (''priority'',
              JStr (if g_geofence_type geofence = SAFE_ZONE then ''MEDIUM'' else ''HIGH''))]"

text \<open>
  The \<open>for geofence in geofences\<close> loop.  \<open>pending\<close> are the events added to the session
  and \<open>k\<close> is the message log.  An exception leaves the loop at once.
\<close>

fun update_location_loop ::
  "LocationUpdate \<Rightarrow> User \<Rightarrow> datetime \<Rightarrow> Database \<Rightarrow> Geofence list
     \<Rightarrow> GeofenceEvent list \<Rightarrow> json list \<Rightarrow> error option \<times> GeofenceEvent list \<times> json list" where
  "update_location_loop location_data current_user now d [] pending k = (None, pending, k)"
| "update_location_loop location_data current_user now d (geofence # rest) pending k =
     (case check_geofence location_data current_user now d geofence of
        Inl e \<Rightarrow> (Some e, pending, k)
      | Inr None \<Rightarrow> update_location_loop location_data current_user now d rest pending k
      | Inr (Some (event_type, distance)) \<Rightarrow>
          (case new_geofence_event location_data of
             Inl e \<Rightarrow> (Some e, pending, k)
           | Inr geofence_event \<Rightarrow>
               update_location_loop location_data current_user now d rest
                 (pending @ [geofence_event])
                 (k @ [geofence_event_message location_data current_user now geofence
                         event_type distance])))"

text \<open>
  The handler.  Its first statement is the query for the user's active geofences; an
  exception anywhere in the body is answered with a rollback and a 500.  \<open>now\<close> is the clock
  reading of the request.
\<close>

definition update_location ::
  "LocationUpdate \<Rightarrow> User \<Rightarrow> datetime \<Rightarrow> World \<Rightarrow> (error + string) \<times> World" where
  "update_location location_data current_user now w =
     (case select_active_geofences (db w) current_user of
        Inl e \<Rightarrow> (Inl (server_error ''Failed to update location'' e), w)
      | Inr active \<Rightarrow>
          (case update_location_loop location_data current_user now (db w) active [] (kafka w) of
             (Some e, pending, k) \<Rightarrow>
               (Inl (server_error ''Failed to update location'' e), \<lparr>db = db w, kafka = k\<rparr>)
           | (None, pending, k) \<Rightarrow>
               (Inr ''Location updated successfully'',
                \<lparr>db = (db w)\<lparr>geofence_events := geofence_events (db w) @ pending\<rparr>,
                 kafka = k\<rparr>)))"

text \<open>The events a request added to the store.\<close>

definition new_events :: "World \<Rightarrow> World \<Rightarrow> GeofenceEvent list" where
  "new_events w w' = drop (length (geofence_events (db w))) (geofence_events (db w'))"

section \<open>Example data\<close>

text \<open>
  Two users; circular zones of radius 30 m centred at latitude 0, longitude 0, owned by the
  first user, with the enter, exit and dwell triggers set and a dwell time of 5 minutes;
  samples on the equator at a given longitude; stored events of a zone.  A sample at
  longitude 1/2000 degree lies \<open>mid_distance\<close> (between 35 m and 71 m) from the centre, one at
  longitude 90 lies \<open>far_distance\<close> away.
\<close>

definition alice :: User where
  "alice =
     \<lparr> u_id = 1, u_email = ''alice@example.org'', u_phone = ''+10000001'',
       u_password_hash = ''x'', u_first_name = ''Alice'', u_last_name = ''Khan'',
       u_is_active = True, u_is_verified = True, u_created_at = 0, u_updated_at = 0 \<rparr>"

definition bob :: User where
  "bob =
     \<lparr> u_id = 2, u_email = ''bob@example.org'', u_phone = ''+10000002'',
       u_password_hash = ''y'', u_first_name = ''Bob'', u_last_name = ''Malik'',
       u_is_active = True, u_is_verified = True, u_created_at = 0, u_updated_at = 0 \<rparr>"

definition zone :: "uuid \<Rightarrow> Geofence" where
  "zone i =
     \<lparr> g_id = i, g_user_id = 1, g_name = ''Home'', g_description = None,
       g_geofence_type = SAFE_ZONE, g_status = ACTIVE, g_shape = CIRCLE,
       g_coordinates = JNull, g_radius = Some 30,
       g_center_latitude = 0, g_center_longitude = 0,
       g_address = None, g_city = None, g_state = None, g_country = None,
       g_postal_code = None,
       g_trigger_on_enter = True, g_trigger_on_exit = True, g_trigger_on_dwell = True,
       g_dwell_time_minutes = Some 5,
       g_notify_user = True, g_notify_emergency_contacts = False,
       g_notification_message = None,
       g_is_scheduled = False, g_schedule_config = JNull,
       g_valid_from = None, g_valid_until = None,
       g_monitoring_enabled = True, g_sensitivity_level = Some ''medium'',
       g_total_entries = 0, g_total_exits = 0, g_total_dwells = 0,
       g_last_triggered = None, g_tags = JNull, g_metadata = JNull,
       g_created_at = 0, g_updated_at = 0 \<rparr>"

definition sample :: "real \<Rightarrow> datetime option \<Rightarrow> LocationUpdate" where
  "sample lon ts =
     \<lparr> l_latitude = 0, l_longitude = lon, l_accuracy = None, l_altitude = None,
       l_speed = None, l_heading = None, l_timestamp = ts \<rparr>"

definition stored_event :: "uuid \<Rightarrow> GeofenceEventType \<Rightarrow> datetime \<Rightarrow> GeofenceEvent" where
  "stored_event i t created =
     \<lparr> e_id = 100, e_geofence_id = i, e_user_id = 1, e_event_type = t,
       e_latitude = 0, e_longitude = 0, e_accuracy = None,
       e_distance_from_boundary = None, e_device_id = None, e_battery_level = None,
       e_network_type = None, e_event_timestamp = created,
       e_dwell_duration_minutes = None, e_processed = False, e_processed_at = None,
       e_processing_error = None, e_notifications_sent = False, e_notification_count = 0,
       e_metadata = JNull, e_created_at = created \<rparr>"

definition world :: "Geofence list \<Rightarrow> GeofenceEvent list \<Rightarrow> World" where
  "world gs es = \<lparr>db = \<lparr>geofences = gs, geofence_events = es\<rparr>, kafka = []\<rparr>"


definition far_distance :: real where
  "far_distance = earth_radius * (pi / 2)"

definition home_request :: GeofenceCreate where
  "home_request =
     \<lparr> c_name = ''Home'', c_description = None, c_geofence_type = S_SAFE_ZONE,
       c_shape = S_CIRCLE, c_center_latitude = 0, c_center_longitude = 0,
       c_radius_meters = Some 30, c_coordinates = None, c_is_active = True,
       c_send_notifications = True, c_notification_events = [S_ENTER, S_EXIT],
       c_metadata = JNull \<rparr>"

definition rename_request :: GeofenceUpdate where
  "rename_request =
     \<lparr> p_name = Some ''Mine'', p_description = None, p_is_active = Some False,
       p_send_notifications = None, p_notification_events = None,
       p_radius_meters = None, p_coordinates = None, p_metadata = JNull,
       p_fields_set = JObj [(''name'', JStr ''Mine''), (''is_active'', JBool False)] \<rparr>"

text \<open>The 500 responses of the two handlers whose first query reads \<open>Geofence.is_active\<close>.\<close>

definition no_is_active :: string where
  "no_is_active =
     ''type object '' @ quoted ''Geofence'' @ '' has no attribute '' @ quoted ''is_active''"

section \<open>The Haversine term stays in the domain of the square root and the arc sine\<close>

lemma half_angle_sum:
  fixes x y :: real
  shows "(sin ((y - x) / 2))\<^sup>2 + cos x * cos y = (cos ((x + y) / 2))\<^sup>2"
proof -
  have e1: "2 * ((y - x) / 2) = y - x" and e2: "2 * ((x + y) / 2) = x + y"
    by simp_all
  have s: "(sin ((y - x) / 2))\<^sup>2 = (1 - cos (y - x)) / 2"
    using cos_double_sin [of "(y - x) / 2", unfolded e1] by argo
  have c: "(cos ((x + y) / 2))\<^sup>2 = (1 + cos (x + y)) / 2"
    using cos_double_cos [of "(x + y) / 2", unfolded e2] by argo
  have m: "cos x * cos y = (cos (x - y) + cos (x + y)) / 2"
    by (rule cos_times_cos)
  have d: "cos (y - x) = cos (x - y)"
    using cos_minus [of "x - y"] by simp
  show ?thesis
    unfolding s c m d by argo
qed

lemma convex_unit:
  fixes p q t :: real
  assumes "0 \<le> p" "p \<le> 1" "0 \<le> q" "q \<le> 1" "0 \<le> t" "t \<le> 1"
  shows "0 \<le> (1 - t) * p + t * q" and "(1 - t) * p + t * q \<le> 1"
proof -
  show "0 \<le> (1 - t) * p + t * q"
    using assms by simp
  have "(1 - t) * p \<le> (1 - t) * 1"
    using assms by (intro mult_left_mono) simp_all
  moreover have "t * q \<le> t * 1"
    using assms by (intro mult_left_mono) simp_all
  ultimately show "(1 - t) * p + t * q \<le> 1"
    by simp
qed

lemma haversine_a_convex:
  "haversine_a lat1 lon1 lat2 lon2 =
     (1 - (sin ((radians lon2 - radians lon1) / 2))\<^sup>2) * (sin ((radians lat2 - radians lat1) / 2))\<^sup>2
     + (sin ((radians lon2 - radians lon1) / 2))\<^sup>2 * (cos ((radians lat1 + radians lat2) / 2))\<^sup>2"
proof -
  have "(cos ((radians lat1 + radians lat2) / 2))\<^sup>2 =
        (sin ((radians lat2 - radians lat1) / 2))\<^sup>2 + cos (radians lat1) * cos (radians lat2)"
    by (rule half_angle_sum [symmetric])
  then show ?thesis
    by (simp add: haversine_a_def Let_def algebra_simps)
qed

lemma sin_sq_unit: "0 \<le> (sin (x::real))\<^sup>2 \<and> (sin x)\<^sup>2 \<le> 1"
  using abs_sin_le_one [of x] by (simp add: abs_square_le_1)

lemma cos_sq_unit: "0 \<le> (cos (x::real))\<^sup>2 \<and> (cos x)\<^sup>2 \<le> 1"
  using abs_cos_le_one [of x] by (simp add: abs_square_le_1)

lemma haversine_a_range:
  "0 \<le> haversine_a lat1 lon1 lat2 lon2 \<and> haversine_a lat1 lon1 lat2 lon2 \<le> 1"
  unfolding haversine_a_convex
  using convex_unit [OF sin_sq_unit [THEN conjunct1] sin_sq_unit [THEN conjunct2]
      cos_sq_unit [THEN conjunct1] cos_sq_unit [THEN conjunct2]
      sin_sq_unit [THEN conjunct1] sin_sq_unit [THEN conjunct2]]
  by blast

lemma calculate_distance_value:
  "calculate_distance lat1 lon1 lat2 lon2 =
     Inr (earth_radius * (2 * arcsin (sqrt (haversine_a lat1 lon1 lat2 lon2))))"
proof -
  have r: "0 \<le> haversine_a lat1 lon1 lat2 lon2" "haversine_a lat1 lon1 lat2 lon2 \<le> 1"
    using haversine_a_range by blast+
  have s: "sqrt (haversine_a lat1 lon1 lat2 lon2) \<le> 1"
    using r by (simp add: real_sqrt_le_1_iff)
  have s0: "0 \<le> sqrt (haversine_a lat1 lon1 lat2 lon2)"
    using r by simp
  have s1: "\<not> sqrt (haversine_a lat1 lon1 lat2 lon2) < - 1"
    using s0 by linarith
  have s2: "\<not> 1 < sqrt (haversine_a lat1 lon1 lat2 lon2)"
    using s by linarith
  have s3: "\<not> haversine_a lat1 lon1 lat2 lon2 < 0"
    using r by linarith
  show ?thesis
    unfolding calculate_distance_def math_sqrt_def math_asin_def Let_def
    using s1 s2 s3 by simp
qed

lemma sin_sq_swap:
  fixes u v :: real
  shows "(sin ((u - v) / 2))\<^sup>2 = (sin ((v - u) / 2))\<^sup>2"
proof -
  have "(u - v) / 2 = - ((v - u) / 2)"
    by argo
  then have "sin ((u - v) / 2) = - sin ((v - u) / 2)"
    by (simp only: sin_minus)
  then show ?thesis
    by (simp only: power2_minus)
qed

lemma haversine_a_sym:
  "haversine_a lat1 lon1 lat2 lon2 = haversine_a lat2 lon2 lat1 lon1"
proof -
  have a: "(sin ((radians lat2 - radians lat1) / 2))\<^sup>2 = (sin ((radians lat1 - radians lat2) / 2))\<^sup>2"
    by (rule sin_sq_swap)
  have b: "(sin ((radians lon2 - radians lon1) / 2))\<^sup>2 = (sin ((radians lon1 - radians lon2) / 2))\<^sup>2"
    by (rule sin_sq_swap)
  show ?thesis
    by (simp add: haversine_a_def Let_def a b mult.commute)
qed

section \<open>Distances of the example samples\<close>

lemma calculate_distance_same: "calculate_distance lat lon lat lon = Inr 0"
proof -
  have "haversine_a lat lon lat lon = 0"
    by (simp add: haversine_a_def)
  then show ?thesis
    unfolding calculate_distance_value by simp
qed

lemma calculate_distance_equator:
  assumes "0 \<le> x" and "x \<le> 180"
  shows "calculate_distance 0 x 0 0 = Inr (earth_radius * (x * pi / 180))"
proof -
  let ?y = "x * pi / 180 / 2"
  have y0: "0 \<le> ?y" using assms by simp
  have "x * pi \<le> 180 * pi" using assms by simp
  then have y1: "?y \<le> pi / 2" by simp
  have h: "haversine_a 0 x 0 0 = (sin ?y)\<^sup>2"
    using sin_sq_swap [of 0 "x * pi / 180"] by (simp add: haversine_a_def radians_def)
  have yp: "?y \<le> pi"
    using y1 pi_ge_zero by linarith
  have s: "0 \<le> sin ?y"
    by (rule sin_ge_zero [OF y0 yp])
  have "sqrt (haversine_a 0 x 0 0) = sin ?y"
    unfolding h using s by simp
  moreover have ym: "- (pi / 2) \<le> ?y"
    using y0 pi_ge_zero by linarith
  have "arcsin (sin ?y) = ?y"
    by (rule arcsin_sin [OF ym y1])
  ultimately show ?thesis
    unfolding calculate_distance_value by simp
qed


lemma calculate_distance_far: "calculate_distance 0 90 0 0 = Inr far_distance"
  using calculate_distance_equator [of 90] by (simp add: far_distance_def)


lemma far_distance_bounds: "30 < far_distance" "\<not> far_distance \<le> 30"
  using pi_ge_two by (simp_all add: far_distance_def earth_radius_def)

section \<open>The handlers whose first query reads Geofence.is_active\<close>

lemma and_then_Inl: "and_then (Inl e) f = Inl e"
  by (simp add: and_then_def)

lemma select_active_geofences_raises:
  "select_active_geofences d current_user = Inl (AttributeError no_is_active)"
  by (simp add: select_active_geofences_def type_has_no_attribute_def and_then_Inl no_is_active_def)

lemma update_location_raises:
  "update_location location_data current_user now w
     = (Inl (HTTPException 500 (''Failed to update location: '' @ no_is_active)), w)"
  by (simp add: update_location_def select_active_geofences_raises server_error_def)

lemma create_geofence_raises:
  "create_geofence geofence_data current_user w
     = (Inl (HTTPException 500 (''Failed to create geofence: '' @ no_is_active)), w)"
  by (simp add: create_geofence_def select_active_geofences_raises server_error_def)

lemma new_events_same: "new_events w w = []"
  by (simp add: new_events_def)

section \<open>Claims\<close>

text \<open>
  C7: the great-circle distance is symmetric in its two points (both calls return the
  same distance, no error branch is taken) and is zero for identical points.
\<close>

theorem calculate_distance_symmetric_zero:
  "(\<exists>d. calculate_distance lat1 lon1 lat2 lon2 = Inr d
        \<and> calculate_distance lat2 lon2 lat1 lon1 = Inr d)
   \<and> calculate_distance lat lon lat lon = Inr 0"
proof -
  have "calculate_distance lat2 lon2 lat1 lon1 = calculate_distance lat1 lon1 lat2 lon2"
    unfolding calculate_distance_value using haversine_a_sym [of lat1 lon1 lat2 lon2] by simp
  then have "\<exists>d. calculate_distance lat1 lon1 lat2 lon2 = Inr d
        \<and> calculate_distance lat2 lon2 lat1 lon1 = Inr d"
    by (simp add: calculate_distance_value)
  moreover have "haversine_a lat lon lat lon = 0"
    by (simp add: haversine_a_def)
  then have "calculate_distance lat lon lat lon = Inr 0"
    unfolding calculate_distance_value by simp
  ultimately show ?thesis by blast
qed

text \<open>
  C6: the distance from the point to the centre is always computed, and the circle test
  returns true when it is strictly less than the radius, true when it equals the radius
  (inclusive boundary), and false when it is strictly greater.
\<close>

theorem circle_containment_inclusive:
  "\<exists>distance. calculate_distance point_lat point_lon center_lat center_lon = Inr distance
     \<and> (distance < radius_meters \<longrightarrow>
          is_point_in_circle point_lat point_lon center_lat center_lon radius_meters = Inr True)
     \<and> (distance = radius_meters \<longrightarrow>
          is_point_in_circle point_lat point_lon center_lat center_lon radius_meters = Inr True)
     \<and> (distance > radius_meters \<longrightarrow>
          is_point_in_circle point_lat point_lon center_lat center_lon radius_meters = Inr False)"
  by (simp add: is_point_in_circle_def calculate_distance_value)

text \<open>
  The centre itself with radius 30, a point a quarter of the equator away with exactly
  that distance as radius, and the same point with radius 30.
\<close>

theorem circle_containment_inclusive_witness:
  "is_point_in_circle 0 0 0 0 30 = Inr True
   \<and> is_point_in_circle 0 90 0 0 far_distance = Inr True
   \<and> is_point_in_circle 0 90 0 0 30 = Inr False"
proof -
  have a: "is_point_in_circle 0 0 0 0 30 = Inr True"
    using circle_containment_inclusive [of 0 0 0 0 30] calculate_distance_same [of 0 0]
    by auto
  have b: "is_point_in_circle 0 90 0 0 far_distance = Inr True"
    using circle_containment_inclusive [of 0 90 0 0 far_distance] calculate_distance_far
    by auto
  have c: "is_point_in_circle 0 90 0 0 30 = Inr False"
    using circle_containment_inclusive [of 0 90 0 0 30] calculate_distance_far far_distance_bounds(1)
    by auto
  from a b c show ?thesis by blast
qed



text \<open>
  C2, at its own sequence.  A zone with the enter and exit triggers set and samples inside,
  inside, outside and inside it: each request is answered with the 500 of the zone query,
  and after the four requests the store holds no event, neither two ENTER nor one EXIT.
\<close>

theorem enter_exit_sequence_stores_nothing:
  "g_trigger_on_enter (zone 10) \<and> g_trigger_on_exit (zone 10)
   \<and> fst (update_location (sample 0 None) alice 0 (world [zone 10] []))
       = Inl (HTTPException 500 (''Failed to update location: '' @ no_is_active))
   \<and> snd (update_location (sample 0 None) alice 180 (snd
        (update_location (sample 90 None) alice 120 (snd
        (update_location (sample 0 None) alice 60 (snd
        (update_location (sample 0 None) alice 0 (world [zone 10] []))))))))
       = world [zone 10] []
   \<and> geofence_events (db (world [zone 10] [])) = []"
  by (simp add: update_location_raises zone_def world_def)



text \<open>
  C4, at its own sequence.  A zone with the dwell trigger set and a dwell time of 5 minutes,
  samples inside it at 0, 2, 4 and 6 minutes: each request is answered with the 500 of the
  zone query, and after the four requests the store holds no event, so no DWELL for the
  sample of minute 6.
\<close>

theorem dwell_sequence_stores_nothing:
  "g_trigger_on_dwell (zone 10) \<and> g_dwell_time_minutes (zone 10) = Some 5
   \<and> fst (update_location (sample 0 None) alice 360 (world [zone 10] []))
       = Inl (HTTPException 500 (''Failed to update location: '' @ no_is_active))
   \<and> snd (update_location (sample 0 None) alice 360 (snd
        (update_location (sample 0 None) alice 240 (snd
        (update_location (sample 0 None) alice 120 (snd
        (update_location (sample 0 None) alice 0 (world [zone 10] []))))))))
       = world [zone 10] []
   \<and> geofence_events (db (world [zone 10] [])) = []"
  by (simp add: update_location_raises zone_def world_def)

text \<open>
  C8, at a user without geofences and at a user with ten active ones: create_geofence
  answers both with the 500 of its count query, creates nothing and never answers 400.
\<close>

theorem create_geofence_answers_500:
  "create_geofence home_request alice (world [] [])
     = (Inl (HTTPException 500 (''Failed to create geofence: '' @ no_is_active)), world [] [])
   \<and> create_geofence home_request alice
        (world [zone 1, zone 2, zone 3, zone 4, zone 5, zone 6, zone 7, zone 8, zone 9, zone 10] [])
     = (Inl (HTTPException 500 (''Failed to create geofence: '' @ no_is_active)),
        world [zone 1, zone 2, zone 3, zone 4, zone 5, zone 6, zone 7, zone 8, zone 9, zone 10] [])"
  by (simp add: create_geofence_raises)

text \<open>
  C9: update_location emits an EXIT for a (user, geofence) pair only if the store holds an
  ENTER of that pair created within the last five minutes (300 seconds).  Stated the other
  way round: when the store holds no such ENTER (the pair has no event at all, or its
  events are older than five minutes, or they are no ENTER), the request adds no EXIT for
  the pair to the store and publishes nothing.
\<close>

theorem exit_requires_recent_enter:
  assumes "\<not> (\<exists>x\<in>set (geofence_events (db w)).
                 e_geofence_id x = geofence_id \<and> e_user_id x = u_id current_user
                 \<and> now - 300 \<le> e_created_at x \<and> e_event_type x = ENTER)"
  shows "\<not> (\<exists>e\<in>set (new_events w (snd (update_location location_data current_user now w))).
             e_geofence_id e = geofence_id \<and> e_user_id e = u_id current_user
             \<and> e_event_type e = EXIT)
       \<and> kafka (snd (update_location location_data current_user now w)) = kafka w"
  by (simp add: update_location_raises new_events_same)

text \<open>
  A sample far outside the zone, 400 seconds after the pair's only stored event, an ENTER.
\<close>

theorem exit_requires_recent_enter_witness:
  "\<not> (\<exists>e\<in>set (new_events (world [zone 10] [stored_event 10 ENTER 0])
           (snd (update_location (sample 90 None) alice 400
                  (world [zone 10] [stored_event 10 ENTER 0])))).
         e_geofence_id e = 10 \<and> e_user_id e = u_id alice \<and> e_event_type e = EXIT)
   \<and> kafka (snd (update_location (sample 90 None) alice 400
                   (world [zone 10] [stored_event 10 ENTER 0])))
       = kafka (world [zone 10] [stored_event 10 ENTER 0])"
proof -
  let ?w = "world [zone 10] [stored_event 10 ENTER 0]"
  have h: "\<not> (\<exists>x\<in>set (geofence_events (db ?w)).
                 e_geofence_id x = 10 \<and> e_user_id x = u_id alice
                 \<and> 400 - 300 \<le> e_created_at x \<and> e_event_type x = ENTER)"
    by (simp add: world_def stored_event_def)
  from exit_requires_recent_enter [OF h, of "sample 90 None"]
  show ?thesis .
qed

text \<open>
  C10: when no stored geofence has the requested id and the requesting user as owner (the
  id may belong to another user's geofence), get_geofence, update_geofence and
  delete_geofence all answer 404 "Geofence not found", return no geofence data, and leave
  the store and the message log unchanged.
\<close>

theorem foreign_geofence_not_found:
  assumes "\<forall>g\<in>set (geofences (db w)). g_id g = geofence_id \<longrightarrow> g_user_id g \<noteq> u_id current_user"
  shows "get_geofence geofence_id current_user w
           = (Inl (HTTPException 404 ''Geofence not found''), w)
       \<and> update_geofence geofence_id geofence_data current_user now w
           = (Inl (HTTPException 404 ''Geofence not found''), w)
       \<and> delete_geofence geofence_id current_user now w
           = (Inl (HTTPException 404 ''Geofence not found''), w)"
proof -
  from assms have "select_geofence (db w) geofence_id current_user = []"
    by (auto simp add: select_geofence_def filter_empty_conv)
  then show ?thesis
    by (simp add: get_geofence_def update_geofence_def delete_geofence_def not_found_def)
qed

text \<open>Bob asks for, updates and deletes a geofence of Alice's.\<close>

theorem foreign_geofence_not_found_witness:
  "get_geofence 10 bob (world [zone 10] [stored_event 10 ENTER 0])
     = (Inl (HTTPException 404 ''Geofence not found''), world [zone 10] [stored_event 10 ENTER 0])
   \<and> update_geofence 10 rename_request bob 60 (world [zone 10] [stored_event 10 ENTER 0])
     = (Inl (HTTPException 404 ''Geofence not found''), world [zone 10] [stored_event 10 ENTER 0])
   \<and> delete_geofence 10 bob 60 (world [zone 10] [stored_event 10 ENTER 0])
     = (Inl (HTTPException 404 ''Geofence not found''), world [zone 10] [stored_event 10 ENTER 0])"
proof -
  let ?w = "world [zone 10] [stored_event 10 ENTER 0]"
  have h: "\<forall>g\<in>set (geofences (db ?w)). g_id g = 10 \<longrightarrow> g_user_id g \<noteq> u_id bob"
    by (simp add: world_def zone_def bob_def)
  from foreign_geofence_not_found [OF h, of rename_request 60] show ?thesis
    by blast
qed

end
